theory Spec2Isabelle
  imports Main "HOL-Library.AList" "HOL-Library.Sublist"
begin

section \<open>JavaScript values\<close>

text \<open>
  The snippets of the articles are plain JavaScript. A value is \<open>undefined\<close>, \<open>null\<close>,
  a number, a string, a reference to an object of the heap, the object
  \<open>Object.prototype\<close>, or a built-in function such as \<open>Object\<close> or
  \<open>Object.prototype.toString\<close>, named by its path. The own enumerable properties of an
  object are a list in \<open>Object.keys\<close> order. Properties are data properties, but for the
  accessor \<open>__proto__\<close> of \<open>Object.prototype\<close>.
\<close>

datatype val = Undefined | Null | Num int | Str string | Ref nat | ObjectPrototype | Native string

type_synonym obj = "(string \<times> val) list"

text \<open>An action is an object literal such as \<open>{ type: "INCREMENT" }\<close>; \<open>{}\<close> is \<open>[]\<close>.\<close>

type_synonym action = obj

text \<open>Reducers are taken to be pure, total functions of the state and the action.\<close>

type_synonym reducer = "val \<Rightarrow> action \<Rightarrow> val"

section \<open>An example reducer\<close>

text \<open>A counter with an increment and a decrement action, as in the demo that the article
  on Redux describes:
  \<^verbatim>\<open>(state = 0, action) => action.type === "INCREMENT" ? state + 1
                     : action.type === "DECREMENT" ? state - 1 : state\<close>
  on numbers.\<close>

definition counterReducer :: reducer where
  "counterReducer s action =
     (let n = (case s of Num n \<Rightarrow> n | _ \<Rightarrow> 0) in
      if map_of action ''type'' = Some (Str ''INCREMENT'') then Num (n + 1)
      else if map_of action ''type'' = Some (Str ''DECREMENT'') then Num (n - 1)
      else Num n)"

definition increment :: action where
  "increment = [(''type'', Str ''INCREMENT'')]"


section \<open>Objects and their prototypes\<close>

text \<open>
  Whether two results of a reducer are one object or two is a question of identity, so
  objects live in a heap: a reference is an address, \<open>{}\<close> allocates a fresh address.
  An object has its own properties and a prototype, which is \<open>null\<close> or an object; an
  object literal has the prototype \<open>Object.prototype\<close>. An address below \<open>fresh\<close> is
  allocated. \<open>Object.prototype\<close> is the one of a fresh realm: nothing has been added to
  it or removed from it.
\<close>

datatype error = TypeError | RangeError

record object =
  own :: obj
  proto :: val

record heap =
  objs :: "nat \<Rightarrow> object"
  fresh :: nat

definition emptyHeap :: heap where
  "emptyHeap = \<lparr>objs = (\<lambda>a. \<lparr>own = [], proto = Null\<rparr>), fresh = 0\<rparr>"

definition alloc :: "obj \<Rightarrow> heap \<Rightarrow> nat \<times> heap" where
  "alloc ob h =
     (fresh h,
      h\<lparr>objs := (objs h)(fresh h := \<lparr>own = ob, proto = ObjectPrototype\<rparr>), fresh := Suc (fresh h)\<rparr>)"

text \<open>The data properties of \<open>Object.prototype\<close>; all of them are writable.\<close>

definition objectPrototypeProps :: obj where
  "objectPrototypeProps =
     [(''constructor'', Native ''Object''),
      (''__defineGetter__'', Native ''Object.prototype.__defineGetter__''),
      (''__defineSetter__'', Native ''Object.prototype.__defineSetter__''),
      (''hasOwnProperty'', Native ''Object.prototype.hasOwnProperty''),
      (''__lookupGetter__'', Native ''Object.prototype.__lookupGetter__''),
      (''__lookupSetter__'', Native ''Object.prototype.__lookupSetter__''),
      (''isPrototypeOf'', Native ''Object.prototype.isPrototypeOf''),
      (''propertyIsEnumerable'', Native ''Object.prototype.propertyIsEnumerable''),
      (''toString'', Native ''Object.prototype.toString''),
      (''valueOf'', Native ''Object.prototype.valueOf''),
      (''toLocaleString'', Native ''Object.prototype.toLocaleString'')]"

definition protoOf :: "heap \<Rightarrow> val \<Rightarrow> val" where
  "protoOf h v = (case v of Ref a \<Rightarrow> proto (objs h a) | ObjectPrototype \<Rightarrow> Null | _ \<Rightarrow> Undefined)"

text \<open>
  The read \<open>o[k]\<close> walks the prototype chain of \<open>o\<close> from a holder on: the first own
  property named \<open>k\<close> is the value; at \<open>Object.prototype\<close> the key \<open>__proto__\<close>
  runs the getter, which returns the prototype of the receiver \<open>o\<close>; at \<open>null\<close> the
  value is \<open>undefined\<close>. A chain has no cycle, so it is no longer than the number of
  allocated objects, which bounds the walk. A built-in function is not followed as a
  prototype.
\<close>

fun getFrom :: "nat \<Rightarrow> heap \<Rightarrow> val \<Rightarrow> val \<Rightarrow> string \<Rightarrow> val" where
  "getFrom d h ObjectPrototype receiver k =
     (case map_of objectPrototypeProps k of
        Some v \<Rightarrow> v
      | None \<Rightarrow> if k = ''__proto__'' then protoOf h receiver else Undefined)"
| "getFrom (Suc d) h (Ref a) receiver k =
     (case map_of (own (objs h a)) k of
        Some v \<Rightarrow> v
      | None \<Rightarrow> getFrom d h (proto (objs h a)) receiver k)"
| "getFrom d h holder receiver k = Undefined"

text \<open>Reading a property of \<open>undefined\<close> or \<open>null\<close> throws a \<open>TypeError\<close>. The
  wrapper properties of primitive numbers and strings and the properties of built-in
  functions are not modelled.\<close>

definition getProp :: "heap \<Rightarrow> val \<Rightarrow> string \<Rightarrow> error + val" where
  "getProp h v k =
     (case v of
        Undefined \<Rightarrow> Inl TypeError
      | Null \<Rightarrow> Inl TypeError
      | Ref a \<Rightarrow> Inr (getFrom (Suc (fresh h)) h v v k)
      | ObjectPrototype \<Rightarrow> Inr (getFrom (Suc (fresh h)) h v v k)
      | _ \<Rightarrow> Inr Undefined)"

text \<open>
  The assignment \<open>o[k] = v\<close>, in strict mode (the snippets are modules). It replaces
  the value of an own property in place and appends a new one, unless the key is
  \<open>__proto__\<close> and the chain of \<open>o\<close> reaches the accessor of \<open>Object.prototype\<close>
  past no data property of that name. Then the setter runs: an object or \<open>null\<close> becomes
  the prototype of \<open>o\<close>, with a \<open>TypeError\<close> when that would close a cycle, and any
  other value is ignored; no own property is created.
\<close>

fun viaSetter :: "nat \<Rightarrow> heap \<Rightarrow> val \<Rightarrow> bool" where
  "viaSetter d h ObjectPrototype = True"
| "viaSetter (Suc d) h (Ref a) =
     (map_of (own (objs h a)) ''__proto__'' = None \<and> viaSetter d h (proto (objs h a)))"
| "viaSetter d h holder = False"

fun inChain :: "nat \<Rightarrow> heap \<Rightarrow> val \<Rightarrow> nat \<Rightarrow> bool" where
  "inChain (Suc d) h (Ref b) a = (b = a \<or> inChain d h (proto (objs h b)) a)"
| "inChain d h holder a = False"

definition isObject :: "val \<Rightarrow> bool" where
  "isObject v = (case v of Ref a \<Rightarrow> True | ObjectPrototype \<Rightarrow> True | Native f \<Rightarrow> True | _ \<Rightarrow> False)"

definition setProp :: "heap \<Rightarrow> nat \<Rightarrow> string \<Rightarrow> val \<Rightarrow> error + heap" where
  "setProp h a k v =
     (if k = ''__proto__'' \<and> viaSetter (Suc (fresh h)) h (Ref a)
      then (if v = Null \<or> isObject v
            then (if proto (objs h a) = v then Inr h
                  else if inChain (Suc (fresh h)) h v a then Inl TypeError
                  else Inr (h\<lparr>objs := (objs h)(a := (objs h a)\<lparr>proto := v\<rparr>)\<rparr>))
            else Inr h)
      else Inr (h\<lparr>objs := (objs h)(a := (objs h a)\<lparr>own := AList.update k v (own (objs h a))\<rparr>)\<rparr>))"

text \<open>What a read of a key yields on an object with the prototype \<open>Object.prototype\<close>
  that does not own the key, as \<open>{}\<close> at first.\<close>

definition plainInherited :: "string \<Rightarrow> val" where
  "plainInherited k =
     (case map_of objectPrototypeProps k of
        Some v \<Rightarrow> v
      | None \<Rightarrow> if k = ''__proto__'' then ObjectPrototype else Undefined)"

section \<open>combineReducers (content/blog/how-to-create-your-own-redux)\<close>

text \<open>
  \<^verbatim>\<open>
  const combineReducers = reducers => {
    const nextState = {};
    const reducerFunctions = {};
    const reducersKeys = Object.keys(reducers);
    reducersKeys.forEach(reducerKey => {
      if (typeof reducers[reducerKey] === "function") {
        reducerFunctions[reducerKey] = reducers[reducerKey];
      }
    });
    const reducerFunctionsKeys = Object.keys(reducerFunctions);

    return (state = {}, action) => {
      reducerFunctionsKeys.forEach(reducerKey => {
        const reducer = reducerFunctions[reducerKey];
        nextState[reducerKey] = reducer(state[reducerKey], action);
      });

      return nextState;
    };
  };
  \<close>
  The argument \<open>reducers\<close> is an object whose own enumerable properties hold functions or
  anything else; it is read while \<open>combineReducers\<close> runs and never written, so it is the
  list of these properties, and \<open>reducers[reducerKey]\<close> for a key of \<open>Object.keys\<close> is
  the own value. \<open>nextState\<close> is returned to the caller, and \<open>state\<close> comes from the
  caller: both are references into the heap. The reducers of the slices are ordinary
  functions, arrow functions or function expressions, pure in the slice and the action.

  The object \<open>reducerFunctions\<close> is private to the closure. It is its own properties
  and whether its prototype is still \<open>Object.prototype\<close>: the assignment
  \<open>reducerFunctions["__proto__"] = f\<close> runs the setter, which makes the function \<open>f\<close>
  the prototype and creates no own property. After that an assignment to \<open>name\<close> or
  \<open>length\<close>, which the function owns and which are not writable, and to \<open>arguments\<close>
  or \<open>caller\<close>, whose setter on \<open>Function.prototype\<close> throws, is a \<open>TypeError\<close>;
  the other properties that a function inherits are writable data properties, so an
  assignment creates an own property as before.
\<close>

text \<open>A value of \<open>reducers\<close> for which \<open>typeof\<close> yields \<open>"function"\<close> is
  \<open>Function f\<close>, with \<open>f\<close> what a call of it returns, also when it is a built-in
  function; any other value \<open>v\<close> is \<open>Other v\<close>.\<close>

datatype entry = Function reducer | Other val

type_synonym combined = "val \<Rightarrow> action \<Rightarrow> heap \<Rightarrow> error + val \<times> heap"

record reducerFunctions =
  entries :: "(string \<times> reducer) list"
  protoIsFunction :: bool

text \<open>The body of the first \<open>forEach\<close>, for one key, and the loop.\<close>

definition keepFunction ::
  "(string \<times> entry) list \<Rightarrow> string \<Rightarrow> reducerFunctions \<Rightarrow> error + reducerFunctions" where
  "keepFunction reducers reducerKey rf =
     (case map_of reducers reducerKey of
        Some (Function f) \<Rightarrow>
          if reducerKey = ''__proto__'' then Inr (rf\<lparr>protoIsFunction := True\<rparr>)
          else if protoIsFunction rf \<and> reducerKey \<in> set [''name'', ''length'', ''arguments'', ''caller'']
          then Inl TypeError
          else Inr (rf\<lparr>entries := AList.update reducerKey f (entries rf)\<rparr>)
      | _ \<Rightarrow> Inr rf)"

fun keepFunctions ::
  "(string \<times> entry) list \<Rightarrow> string list \<Rightarrow> reducerFunctions \<Rightarrow> error + reducerFunctions" where
  "keepFunctions reducers [] rf = Inr rf"
| "keepFunctions reducers (reducerKey # ks) rf =
     (case keepFunction reducers reducerKey rf of
        Inl e \<Rightarrow> Inl e
      | Inr rf' \<Rightarrow> keepFunctions reducers ks rf')"

text \<open>The second \<open>forEach\<close>, inside the returned function. It visits the keys of
  \<open>Object.keys(reducerFunctions)\<close>, for which \<open>reducerFunctions[reducerKey]\<close> is the own
  value, so it visits the own properties. It reads \<open>state[reducerKey]\<close> from the heap as
  it is at that moment.\<close>

fun reduceKeys ::
  "nat \<Rightarrow> val \<Rightarrow> action \<Rightarrow> (string \<times> reducer) list \<Rightarrow> heap \<Rightarrow> error + heap" where
  "reduceKeys nextState state action [] h = Inr h"
| "reduceKeys nextState state action ((reducerKey, reducer) # rest) h =
     (case getProp h state reducerKey of
        Inl e \<Rightarrow> Inl e
      | Inr v \<Rightarrow>
          (case setProp h nextState reducerKey (reducer v action) of
             Inl e \<Rightarrow> Inl e
           | Inr h' \<Rightarrow> reduceKeys nextState state action rest h'))"

text \<open>The returned function. The default parameter \<open>state = {}\<close> allocates an empty
  object when the argument is \<open>undefined\<close>.\<close>

definition combination :: "nat \<Rightarrow> (string \<times> reducer) list \<Rightarrow> combined" where
  "combination nextState reducerFunctions state0 action h =
     (let (state, h1) = (case state0 of
                           Undefined \<Rightarrow> (let (a, h') = alloc [] h in (Ref a, h'))
                         | _ \<Rightarrow> (state0, h))
      in case reduceKeys nextState state action reducerFunctions h1 of
           Inl e \<Rightarrow> Inl e
         | Inr h2 \<Rightarrow> Inr (Ref nextState, h2))"

definition combineReducers :: "(string \<times> entry) list \<Rightarrow> heap \<Rightarrow> error + combined \<times> heap" where
  "combineReducers reducers h =
     (let (nextState, h1) = alloc [] h;
          reducersKeys = map fst reducers
      in case keepFunctions reducers reducersKeys \<lparr>entries = [], protoIsFunction = False\<rparr> of
           Inl e \<Rightarrow> Inl e
         | Inr rf \<Rightarrow> Inr (combination nextState (entries rf), h1))"

text \<open>Successive calls of one function, each on the heap the call before has left.\<close>

fun calls :: "combined \<Rightarrow> (val \<times> action) list \<Rightarrow> heap \<Rightarrow> error + heap" where
  "calls r [] h = Inr h"
| "calls r ((s, a) # cs) h =
     (case r s a h of Inl e \<Rightarrow> Inl e | Inr (v, h') \<Rightarrow> calls r cs h')"

subsection \<open>Vocabulary for the statements\<close>






definition deref :: "heap \<Rightarrow> val \<Rightarrow> obj" where
  "deref h v = (case v of Ref a \<Rightarrow> own (objs h a) | _ \<Rightarrow> [])"


subsection \<open>Examples\<close>

text \<open>\<open>combineReducers({ counter: counterReducer, version: 1 })\<close> on an empty heap, and
  the argument of \<open>combineReducers({ ["__proto__"]: constantReducer })\<close>, which owns a
  property \<open>__proto__\<close>.\<close>

definition exampleReducers :: "(string \<times> entry) list" where
  "exampleReducers = [(''counter'', Function counterReducer), (''version'', Other (Num 1))]"

definition exampleCombined :: combined where
  "exampleCombined =
     (case combineReducers exampleReducers emptyHeap of
        Inr (r, h) \<Rightarrow> r
      | Inl e \<Rightarrow> (\<lambda>s a h. Inl e))"

definition exampleHeap :: heap where
  "exampleHeap =
     (case combineReducers exampleReducers emptyHeap of
        Inr (r, h) \<Rightarrow> h
      | Inl e \<Rightarrow> emptyHeap)"


section \<open>createStore (content/blog/how-to-create-your-own-redux)\<close>

text \<open>
  \<^verbatim>\<open>
  const createStore = rootReducer => {
    let state;
    let listeners = [];
    const getState = () => state;
    const dispatch = action => {
      state = rootReducer(state, action);
      listeners.forEach(listener => listener(state));
    };
    const subscribe = listener => {
      listeners.push(listener);
    };
    dispatch({});
    return { getState, dispatch, subscribe };
  };
  \<close>
  The two variables of the closure are the record \<open>store\<close>. A listener is a callback
  that receives the state; it holds a reference to the store, so while it runs it may
  call \<open>dispatch\<close> and \<open>subscribe\<close> itself. A listener is modelled by a name (the
  identity of the function) and by the store calls it makes, in order, when it is invoked
  with a given state. Listeners are taken to return normally.
\<close>

datatype cmd = is_Dispatch: Dispatch action | is_Subscribe: Subscribe listener
and listener = Listener (lname: string) (lbody: "val \<Rightarrow> cmd list")

record store =
  state :: val
  listeners :: "listener list"

definition getState :: "store \<Rightarrow> val" where
  "getState st = state st"

definition subscribe :: "listener \<Rightarrow> store \<Rightarrow> store" where
  "subscribe listener st = st\<lparr>listeners := listeners st @ [listener]\<rparr>"

text \<open>
  One invocation of a listener is recorded as the pair of its name and the argument it was
  called with. \<open>dispatch\<close> returns the store afterwards and the invocations it made, in
  the order they happened. A listener that dispatches can start a chain that never ends, so
  the depth of nested \<open>dispatch\<close> calls is bounded by a counter, and \<open>None\<close> stands for a
  chain that is deeper.

  \<open>Array.prototype.forEach\<close> reads the length of the array once, before the first
  callback: listeners pushed while it runs are not visited by it. The array only grows, so
  the elements visited are the ones in the array when \<open>forEach\<close> starts. The arrow
  function reads the variable \<open>state\<close> at each call.
\<close>

type_synonym invocation = "string \<times> val"

fun dispatch :: "nat \<Rightarrow> reducer \<Rightarrow> action \<Rightarrow> store \<Rightarrow> (store \<times> invocation list) option"
and forEach :: "nat \<Rightarrow> reducer \<Rightarrow> listener list \<Rightarrow> store \<Rightarrow> (store \<times> invocation list) option"
and perform :: "nat \<Rightarrow> reducer \<Rightarrow> cmd list \<Rightarrow> store \<Rightarrow> (store \<times> invocation list) option"
where
  "dispatch 0 rootReducer action st = None"
| "dispatch (Suc n) rootReducer action st =
     (let st' = st\<lparr>state := rootReducer (state st) action\<rparr>
      in forEach n rootReducer (listeners st') st')"
| "forEach n rootReducer [] st = Some (st, [])"
| "forEach n rootReducer (l # ls) st =
     (case perform n rootReducer (lbody l (state st)) st of
        None \<Rightarrow> None
      | Some (st1, t1) \<Rightarrow>
          (case forEach n rootReducer ls st1 of
             None \<Rightarrow> None
           | Some (st2, t2) \<Rightarrow> Some (st2, (lname l, state st) # t1 @ t2)))"
| "perform n rootReducer [] st = Some (st, [])"
| "perform n rootReducer (Dispatch action # cs) st =
     (case dispatch n rootReducer action st of
        None \<Rightarrow> None
      | Some (st1, t1) \<Rightarrow>
          (case perform n rootReducer cs st1 of
             None \<Rightarrow> None
           | Some (st2, t2) \<Rightarrow> Some (st2, t1 @ t2)))"
| "perform n rootReducer (Subscribe l # cs) st = perform n rootReducer cs (subscribe l st)"

definition createStore :: "nat \<Rightarrow> reducer \<Rightarrow> (store \<times> invocation list) option" where
  "createStore n rootReducer =
     dispatch n rootReducer [] \<lparr>state = Undefined, listeners = []\<rparr>"

text \<open>A client session: \<open>createStore\<close>, then a sequence of calls of the returned
  \<open>dispatch\<close> and \<open>subscribe\<close>, then \<open>getState()\<close>. Its result is that state and
  all the invocations of listeners.\<close>

definition session :: "nat \<Rightarrow> reducer \<Rightarrow> cmd list \<Rightarrow> (val \<times> invocation list) option" where
  "session n rootReducer cs =
     (case createStore n rootReducer of
        None \<Rightarrow> None
      | Some (st0, t0) \<Rightarrow>
          (case perform n rootReducer cs st0 of
             None \<Rightarrow> None
           | Some (st, t) \<Rightarrow> Some (getState st, t0 @ t)))"

text \<open>The listeners that a sequence of store calls registers, in order.\<close>

fun subscribed :: "cmd list \<Rightarrow> listener list" where
  "subscribed [] = []"
| "subscribed (Subscribe l # cs) = l # subscribed cs"
| "subscribed (Dispatch a # cs) = subscribed cs"

text \<open>A listener is quiet at a state when, invoked with it, it does not call \<open>dispatch\<close>.\<close>

definition quiet :: "val \<Rightarrow> listener \<Rightarrow> bool" where
  "quiet s l = list_all is_Subscribe (lbody l s)"

subsection \<open>Example listeners\<close>

text \<open>
  \<^verbatim>\<open>
  const logger = s => {};
  const relay = s => { if (s === 1) store.dispatch({ type: "INCREMENT" }); };
  const registrar = s => { store.subscribe(logger); };
  \<close>
\<close>

definition logger :: listener where
  "logger = Listener ''logger'' (\<lambda>s. [])"

definition relay :: listener where
  "relay = Listener ''relay'' (\<lambda>s. if s = Num 1 then [Dispatch increment] else [])"

definition registrar :: listener where
  "registrar = Listener ''registrar'' (\<lambda>s. [Subscribe logger])"

section \<open>The reactivity walkthrough (the article "Vue 3 reactivity in depth")\<close>

text \<open>
  The final version of the walkthrough:
  \<^verbatim>\<open>
  let currentEffect = null;
  const deps = new WeakMap();
  const track = (target, key) => {
    if (!currentEffect) return;
    let objMap = deps.get(target);
    if (!objMap) {
      objMap = {};
      deps.set(target, objMap);
    }
    let dep = objMap[key];
    if (!dep) {
      dep = [];
      objMap[key] = dep;
    }
    dep.push(currentEffect);
  };
  const callEffects = (target, key) => {
    let objMap = deps.get(target);
    if (!objMap) return;
    const dep = objMap[key];
    if (!dep) return;
    dep.forEach(effect => effect());
  };
  const effect = fn => {
    currentEffect = fn;
    currentEffect();
    currentEffect = null;
  };
  \<close>
  \<open>effect\<close> and \<open>currentEffect\<close> are those of the section "Introduce current effect",
  which the final version keeps behind \<open>// ...\<close>. So is the proxy: its \<open>get\<close> handler
  calls \<open>track\<close> after \<open>Reflect.get\<close> and its \<open>set\<close> handler calls \<open>callEffects\<close>
  after \<open>Reflect.set\<close>, in the final version with the target and the key.

  \<open>objMap\<close> is a plain object, so it inherits from \<open>Object.prototype\<close>: for a key
  such as \<open>toString\<close>, \<open>constructor\<close> or \<open>__proto__\<close> that it does not own,
  \<open>objMap[key]\<close> is a function or an object and not \<open>undefined\<close>. Then \<open>dep\<close> is
  truthy and has no \<open>push\<close> and no \<open>forEach\<close>, and calling either is a
  \<open>TypeError\<close>. \<open>objMap\<close> never gets an own property under such a key.

  The values of the properties play no part in \<open>track\<close> and \<open>callEffects\<close>, so they are
  left out. A target object is its identity, a number. A function that is passed to
  \<open>effect\<close> is a name (its identity) and a body; what the body does to the reactive
  machinery is a sequence of reads of a property of a reactive object, writes of one, and
  calls of \<open>effect\<close>. A function throws nothing of its own: an exception comes from
  \<open>track\<close>, from \<open>callEffects\<close> or from the call stack.
\<close>

datatype stmt = is_Get: Get nat string | is_Set: Set nat string | is_Effect: Effect fn
and fn = Fn (fname: string) (fbody: "stmt list")

record reactive =
  currentEffect :: "fn option"
  deps :: "nat \<Rightarrow> (string \<Rightarrow> fn list option) option"

definition initial :: reactive where
  "initial = \<lparr>currentEffect = None, deps = Map.empty\<rparr>"

text \<open>\<open>track\<close> returns the state and the exception it throws, if any. When it throws,
  \<open>deps.set(target, objMap)\<close> has already happened.\<close>

definition track :: "nat \<Rightarrow> string \<Rightarrow> reactive \<Rightarrow> reactive \<times> error option" where
  "track target key r =
     (case currentEffect r of
        None \<Rightarrow> (r, None)
      | Some e \<Rightarrow>
          (let objMap = (case deps r target of None \<Rightarrow> Map.empty | Some m \<Rightarrow> m) in
           case objMap key of
             Some dep \<Rightarrow> (r\<lparr>deps := (deps r)(target \<mapsto> objMap(key \<mapsto> dep @ [e]))\<rparr>, None)
           | None \<Rightarrow>
               if plainInherited key = Undefined
               then (r\<lparr>deps := (deps r)(target \<mapsto> objMap(key \<mapsto> [e]))\<rparr>, None)
               else (r\<lparr>deps := (deps r)(target \<mapsto> objMap)\<rparr>, Some TypeError)))"

text \<open>
  Running code returns the state afterwards, the functions that \<open>callEffects\<close> has
  called, in the order of the calls, and the exception that ended the run, if any. An
  exception ends every statement and every loop that is running; nothing catches it, and
  the state stays as it is. The call stack has room for a number of nested function calls,
  the first argument; a call beyond it is a \<open>RangeError\<close>, as for an effect that writes a
  property it depends on and so calls itself without end. \<open>forEach\<close> visits the elements
  that the array has when it starts.
\<close>

type_synonym run = "reactive \<times> fn list \<times> error option"

function (sequential) exec :: "nat \<Rightarrow> stmt list \<Rightarrow> reactive \<Rightarrow> run"
and effect :: "nat \<Rightarrow> fn \<Rightarrow> reactive \<Rightarrow> run"
and callEffects :: "nat \<Rightarrow> nat \<Rightarrow> string \<Rightarrow> reactive \<Rightarrow> run"
and forEachDep :: "nat \<Rightarrow> fn list \<Rightarrow> reactive \<Rightarrow> run"
and call :: "nat \<Rightarrow> fn \<Rightarrow> reactive \<Rightarrow> run"
where
  "exec n [] r = (r, [], None)"
| "exec n (Get target key # ss) r =
     (case track target key r of
        (r1, Some x) \<Rightarrow> (r1, [], Some x)
      | (r1, None) \<Rightarrow> exec n ss r1)"
| "exec n (Set target key # ss) r =
     (case callEffects n target key r of
        (r1, t1, Some x) \<Rightarrow> (r1, t1, Some x)
      | (r1, t1, None) \<Rightarrow> (case exec n ss r1 of (r2, t2, out) \<Rightarrow> (r2, t1 @ t2, out)))"
| "exec n (Effect f # ss) r =
     (case effect n f r of
        (r1, t1, Some x) \<Rightarrow> (r1, t1, Some x)
      | (r1, t1, None) \<Rightarrow> (case exec n ss r1 of (r2, t2, out) \<Rightarrow> (r2, t1 @ t2, out)))"
| "effect n f r =
     (case call n f (r\<lparr>currentEffect := Some f\<rparr>) of
        (r1, t1, Some x) \<Rightarrow> (r1, t1, Some x)
      | (r1, t1, None) \<Rightarrow> (r1\<lparr>currentEffect := None\<rparr>, t1, None))"
| "callEffects n target key r =
     (case deps r target of
        None \<Rightarrow> (r, [], None)
      | Some objMap \<Rightarrow>
          (case objMap key of
             Some dep \<Rightarrow> forEachDep n dep r
           | None \<Rightarrow>
               if plainInherited key = Undefined then (r, [], None)
               else (r, [], Some TypeError)))"
| "forEachDep n [] r = (r, [], None)"
| "forEachDep n (e # es) r =
     (case call n e r of
        (r1, t1, Some x) \<Rightarrow> (r1, e # t1, Some x)
      | (r1, t1, None) \<Rightarrow> (case forEachDep n es r1 of (r2, t2, out) \<Rightarrow> (r2, e # t1 @ t2, out)))"
| "call 0 f r = (r, [], Some RangeError)"
| "call (Suc n) f r = exec n (fbody f) r"
  by pat_completeness auto

text \<open>Termination: a call of a function value lowers the counter; between two such
  calls the code goes from \<open>exec\<close> through \<open>effect\<close> or \<open>callEffects\<close> and
  \<open>forEachDep\<close> to \<open>call\<close>, and the two loops shorten their lists.\<close>

termination
  by (relation "inv_image (less_than <*lex*> less_than <*lex*> less_than)
        (\<lambda>x. case x of
           Inl (Inl (n, ss, r)) \<Rightarrow> (n, 4::nat, length ss)
         | Inl (Inr (n, f, r)) \<Rightarrow> (n, 3, 0)
         | Inr (Inl (n, target, key, r)) \<Rightarrow> (n, 3, 0)
         | Inr (Inr (Inl (n, es, r))) \<Rightarrow> (n, 2, length es)
         | Inr (Inr (Inr (n, f, r))) \<Rightarrow> (n, 1, 0))")
    auto

subsection \<open>Vocabulary for the statements\<close>

text \<open>The effects stored for a property of a target.\<close>

definition dependants :: "reactive \<Rightarrow> nat \<Rightarrow> string \<Rightarrow> fn list" where
  "dependants r target key =
     (case deps r target of
        None \<Rightarrow> []
      | Some objMap \<Rightarrow> (case objMap key of None \<Rightarrow> [] | Some dep \<Rightarrow> dep))"

text \<open>A key is ordinary when it is not the name of a property of \<open>Object.prototype\<close>.\<close>

definition ordinaryKey :: "string \<Rightarrow> bool" where
  "ordinaryKey k =
     (k \<notin> set [''constructor'', ''__defineGetter__'', ''__defineSetter__'', ''hasOwnProperty'',
                ''__lookupGetter__'', ''__lookupSetter__'', ''isPrototypeOf'',
                ''propertyIsEnumerable'', ''toString'', ''valueOf'', ''toLocaleString'',
                ''__proto__''])"

text \<open>A function only reads when its body consists of reads of reactive properties with
  ordinary keys, as the effects of the article do. A statement of the main program is plain
  when it is a read, a write of a property with an ordinary key, or a call of \<open>effect\<close>
  with a function that only reads.\<close>

fun ordinaryRead :: "stmt \<Rightarrow> bool" where
  "ordinaryRead (Get target key) = ordinaryKey key"
| "ordinaryRead (Set target key) = False"
| "ordinaryRead (Effect f) = False"

definition onlyReads :: "fn \<Rightarrow> bool" where
  "onlyReads f = list_all ordinaryRead (fbody f)"

fun plain :: "stmt \<Rightarrow> bool" where
  "plain (Effect f) = onlyReads f"
| "plain (Get target key) = True"
| "plain (Set target key) = ordinaryKey key"

text \<open>Between two statements of a main program of plain statements, no effect is
  current and every stored effect only reads.\<close>

definition settled :: "reactive \<Rightarrow> bool" where
  "settled r =
     (currentEffect r = None \<and> (\<forall>target key. list_all onlyReads (dependants r target key)))"

text \<open>The functions that a main program passes to \<open>effect\<close> and that read a given
  property of a given target, in the order of the calls, once for each such read.\<close>

fun readers :: "stmt list \<Rightarrow> nat \<Rightarrow> string \<Rightarrow> fn list" where
  "readers [] target key = []"
| "readers (Effect f # ss) target key =
     replicate (count_list (fbody f) (Get target key)) f @ readers ss target key"
| "readers (Get t k # ss) target key = readers ss target key"
| "readers (Set t k # ss) target key = readers ss target key"

subsection \<open>Examples\<close>

text \<open>
  \<^verbatim>\<open>
  effect(() => { fullName = `${person.firstName} ${person.lastName}`; });
  effect(() => { welcome = `Mr. ${person.lastName}`; });
  \<close>
  with \<open>person\<close> the target 0; an effect that calls \<open>effect\<close> before it reads; one
  that writes \<open>lastName\<close>; one that reads \<open>toString\<close>; and one that reads and
  writes \<open>count\<close>, as \<open>person.count++\<close> does.
\<close>

definition fullNameEffect :: fn where
  "fullNameEffect = Fn ''fullName'' [Get 0 ''firstName'', Get 0 ''lastName'']"

definition welcomeEffect :: fn where
  "welcomeEffect = Fn ''welcome'' [Get 0 ''lastName'']"

definition outer :: fn where
  "outer = Fn ''outer'' [Effect welcomeEffect, Get 0 ''firstName'']"

definition rename :: fn where
  "rename = Fn ''rename'' [Set 0 ''lastName'']"

definition describe :: fn where
  "describe = Fn ''describe'' [Get 0 ''toString'']"


section \<open>The components of the site (src/components, src/templates)\<close>

text \<open>
  A component returns React elements. An element is a tag, its props and its children;
  a child is an element, a string or a number. A tag is an HTML tag, a component that the
  site imports from a package or that is not among the sources (\<open>Link\<close>, \<open>Image\<close>,
  \<open>Seo\<close>), which stays as it is, or a styled component, named by its module, its name
  and what it styles; the style sheets use \<open>utils/typography\<close>, which is not among the
  sources, and are left out. Strings are sequences of bytes, so a character beyond ASCII
  is its UTF-8 bytes.
\<close>

record fixed =
  width :: nat
  height :: nat
  src :: string

datatype propval =
    PString string
  | PNullable "string option"
  | PFixed fixed
  | PObject "(string \<times> string) list"

datatype tag = Html string | Component string | Styled string string string

datatype node =
    Element tag "(string \<times> propval) list" "node list"
  | Text string
  | Number int

text \<open>A GraphQL string can be \<open>null\<close>; React renders \<open>null\<close> as nothing.\<close>

definition child :: "string option \<Rightarrow> node list" where
  "child v = (case v of None \<Rightarrow> [] | Some s \<Rightarrow> [Text s])"

text \<open>
  What a render reads besides its props: the global \<open>__PATH_PREFIX__\<close>, the clock
  behind \<open>new Date()\<close> (the local date and time), and the result of the static query of
  \<open>useBioData\<close>. What it can do besides returning elements: write to the console.
\<close>

record clock =
  fullYear :: int
  month :: nat
  day :: nat
  millisecondOfDay :: nat

datatype network = Devto | Github | Linked | Medium | Twitter

record account =
  username :: string
  link :: string

record author =
  name :: string
  summary :: string

record bioQuery =
  avatarFile :: fixed
  iconFile :: "network \<Rightarrow> fixed"
  siteAuthor :: author
  siteSocial :: "network \<Rightarrow> account"

record env =
  PATH_PREFIX :: string
  now :: clock
  staticQuery :: bioQuery

type_synonym console = "(network \<Rightarrow> account) list"

record location =
  pathname :: string

subsection \<open>Heading (src/components/Layout/Heading.js)\<close>

text \<open>
  \<^verbatim>\<open>
  const Heading = ({ location, ...props }) => {
    const rootPath = `${__PATH_PREFIX__}/`
    if (location.pathname === rootPath) {
      return <MainHeading {...props} />;
    }
    return <SubHeading {...props} />;
  }
  \<close>
  with \<open>MainHeading = styled.h1\<close> and \<open>SubHeading = styled.h3\<close>. The props other than
  \<open>location\<close> are the remaining named props and the children.
\<close>

definition Heading :: "env \<Rightarrow> location \<Rightarrow> (string \<times> propval) list \<Rightarrow> node list \<Rightarrow> node \<times> console" where
  "Heading e location props children =
     (let rootPath = PATH_PREFIX e @ ''/'' in
      if pathname location = rootPath
      then (Element (Styled ''Layout/Heading'' ''MainHeading'' ''h1'') props children, [])
      else (Element (Styled ''Layout/Heading'' ''SubHeading'' ''h3'') props children, []))"

subsection \<open>Layout (src/components/Layout/index.js)\<close>

text \<open>
  \<^verbatim>\<open>
  const Layout = ({ location, title, children }) => (
    <Container>
      <header>
        <Heading location={location}>
          <HeadingLink to="/">{title}</HeadingLink>
        </Heading>
      </header>
      <main>{children}</main>
      <footer>
        (c) {new Date().getFullYear()}, Built with
        {` `}
        <a href="https://www.gatsbyjs.org">Gatsby</a>
      </footer>
    </Container>
  )
  \<close>
  where \<open>(c)\<close> stands for the copyright sign of the source, U+00A9.
\<close>

definition Layout :: "env \<Rightarrow> location \<Rightarrow> string \<Rightarrow> node list \<Rightarrow> node \<times> console" where
  "Layout e location title children =
     (let (heading, out) =
            Heading e location []
              [Element (Styled ''Layout'' ''HeadingLink'' ''Link'') [(''to'', PString ''/'')] [Text title]]
      in (Element (Styled ''Layout'' ''Container'' ''div'') []
            [Element (Html ''header'') [] [heading],
             Element (Html ''main'') [] children,
             Element (Html ''footer'') []
               [Text [CHR 0xC2, CHR 0xA9, CHR '' ''],
                Number (fullYear (now e)),
                Text '', Built with'',
                Text '' '',
                Element (Html ''a'') [(''href'', PString ''https://www.gatsbyjs.org'')] [Text ''Gatsby'']]],
          out))"

subsection \<open>Bio (src/components/Bio)\<close>

text \<open>
  \<open>useBioData\<close> runs the static query and returns
  \<open>{ author, social, socialImages, avatar }\<close>; the keys of \<open>socialImages\<close> are, in
  order, \<open>devto\<close>, \<open>github\<close>, \<open>linked\<close>, \<open>medium\<close>, \<open>twitter\<close>.
  \<^verbatim>\<open>
  const Bio = () => {
    const { author, social, avatar, socialImages } = useBioData()
    console.log(social);
    const socialIcons = Object.keys(socialImages).map(key => (
      <SocialLink href={social[key].link} target="_blank" alt={social[key].username}>
        <SocialIcon fixed={socialImages[key]} />
      </SocialLink>
    ))
    return (
      <Container>
        <Avatar fixed={avatar} alt={author.name} imgStyle={{ borderRadius: `50%` }} />
        <Summary>
          <p>Written by <strong>{author.name}</strong></p>
          <div>
            {author.summary}
            {socialIcons}
          </div>
        </Summary>
      </Container>
    )
  }
  \<close>
\<close>

definition useBioData ::
  "env \<Rightarrow> author \<times> (network \<Rightarrow> account) \<times> (network \<times> fixed) list \<times> fixed" where
  "useBioData e =
     (let bioData = staticQuery e;
          socialImages = map (\<lambda>key. (key, iconFile bioData key)) [Devto, Github, Linked, Medium, Twitter]
      in (siteAuthor bioData, siteSocial bioData, socialImages, avatarFile bioData))"

definition Bio :: "env \<Rightarrow> node \<times> console" where
  "Bio e =
     (let (author, social, socialImages, avatar) = useBioData e;
          out = [social];
          socialIcons = map (\<lambda>(key, image).
              Element (Styled ''Bio'' ''SocialLink'' ''a'')
                [(''href'', PString (link (social key))),
                 (''target'', PString ''_blank''),
                 (''alt'', PString (username (social key)))]
                [Element (Styled ''Bio'' ''SocialIcon'' ''Image'') [(''fixed'', PFixed image)] []])
            socialImages
      in (Element (Styled ''Bio'' ''Container'' ''div'') []
            [Element (Styled ''Bio'' ''Avatar'' ''Image'')
               [(''fixed'', PFixed avatar),
                (''alt'', PString (name author)),
                (''imgStyle'', PObject [(''borderRadius'', ''50%'')])] [],
             Element (Styled ''Bio'' ''Summary'' ''div'') []
               [Element (Html ''p'') []
                  [Text ''Written by '', Element (Html ''strong'') [] [Text (name author)]],
                Element (Html ''div'') [] (Text (summary author) # socialIcons)]],
          out))"

subsection \<open>The blog-post template (src/templates/blog-post.js)\<close>

text \<open>
  The page query gives the template the site's title and the post: its excerpt, its HTML
  and the front-matter fields \<open>title\<close>, \<open>date\<close> and \<open>description\<close>, each of the
  GraphQL type \<open>String\<close>, which admits \<open>null\<close>. The page context holds the neighbours \<open>previous\<close> and
  \<open>next\<close> (the fields \<open>previousPost\<close> and \<open>nextPost\<close>).
  \<^verbatim>\<open>
  const BlogPostTemplate = ({ data, pageContext, location }) => {
    const post = data.markdownRemark
    const siteTitle = data.site.siteMetadata.title
    const { previous, next } = pageContext
    return (
      <Layout location={location} title={siteTitle}>
        <Seo
          title={post.frontmatter.title}
          description={post.frontmatter.description || post.excerpt}
        />
        <article>
          <header>
            <MainHeading>{post.frontmatter.title}</MainHeading>
            <PostDate>{post.frontmatter.date}</PostDate>
          </header>
          <section dangerouslySetInnerHTML={{ __html: post.html }} />
          <BottomLine />
          <footer>
            <Bio />
          </footer>
        </article>
        <nav>
          <NavList>
            <li>
              {previous && (
                <Link to={previous.fields.slug} rel="prev">
                  <- {previous.frontmatter.title}
                </Link>
              )}
            </li>
            <li>
              {next && (
                <Link to={next.fields.slug} rel="next">
                  {next.frontmatter.title} ->
                </Link>
              )}
            </li>
          </NavList>
        </nav>
      </Layout>
    )
  }
  \<close>
  where \<open><-\<close> and \<open>->\<close> stand for the arrows of the source, U+2190 and U+2192.
\<close>

record frontmatter =
  title :: "string option"
  date :: "string option"
  description :: "string option"

record markdownRemark =
  frontmatter :: frontmatter
  excerpt :: "string option"
  html :: "string option"

record pageData =
  markdownRemark :: markdownRemark
  siteTitle :: string

record neighbour =
  slug :: string
  neighbourTitle :: "string option"

record pageContext =
  previousPost :: "neighbour option"
  nextPost :: "neighbour option"

text \<open>\<open>a || b\<close> on nullable strings: \<open>null\<close> and the empty string are falsy.\<close>

definition orElse :: "string option \<Rightarrow> string option \<Rightarrow> string option" where
  "orElse a b = (case a of None \<Rightarrow> b | Some s \<Rightarrow> if s = [] then b else a)"

definition BlogPostTemplate :: "env \<Rightarrow> pageData \<Rightarrow> pageContext \<Rightarrow> location \<Rightarrow> node \<times> console" where
  "BlogPostTemplate e data pageContext location =
     (let post = markdownRemark data;
          (bio, bioOut) = Bio e;
          (layout, layoutOut) =
            Layout e location (siteTitle data)
              [Element (Component ''Seo'')
                 [(''title'', PNullable (title (frontmatter post))),
                  (''description'', PNullable (orElse (description (frontmatter post)) (excerpt post)))] [],
               Element (Html ''article'') []
                 [Element (Html ''header'') []
                    [Element (Styled ''blog-post'' ''MainHeading'' ''h1'') [] (child (title (frontmatter post))),
                     Element (Styled ''blog-post'' ''PostDate'' ''p'') [] (child (date (frontmatter post)))],
                  Element (Html ''section'') [(''dangerouslySetInnerHTML'', PNullable (html post))] [],
                  Element (Styled ''blog-post'' ''BottomLine'' ''hr'') [] [],
                  Element (Html ''footer'') [] [bio]],
               Element (Html ''nav'') []
                 [Element (Styled ''blog-post'' ''NavList'' ''ul'') []
                    [Element (Html ''li'') []
                       (case previousPost pageContext of
                          None \<Rightarrow> []
                        | Some p \<Rightarrow>
                            [Element (Component ''Link'') [(''to'', PString (slug p)), (''rel'', PString ''prev'')]
                               (Text [CHR 0xE2, CHR 0x86, CHR 0x90, CHR '' ''] # child (neighbourTitle p))]),
                     Element (Html ''li'') []
                       (case nextPost pageContext of
                          None \<Rightarrow> []
                        | Some n \<Rightarrow>
                            [Element (Component ''Link'') [(''to'', PString (slug n)), (''rel'', PString ''next'')]
                               (child (neighbourTitle n) @ [Text [CHR '' '', CHR 0xE2, CHR 0x86, CHR 0x92]])])]]]
      in (layout, layoutOut @ bioOut))"

text \<open>Vocabulary for the statements: the elements of a tree with a given tag, in document
  order, and the children of an element.\<close>

fun elements :: "tag \<Rightarrow> node \<Rightarrow> node list" where
  "elements t (Element t' props children) =
     (if t' = t then [Element t' props children] else []) @ concat (map (elements t) children)"
| "elements t (Text s) = []"
| "elements t (Number n) = []"

fun childrenOf :: "node \<Rightarrow> node list" where
  "childrenOf (Element t props children) = children"
| "childrenOf (Text s) = []"
| "childrenOf (Number n) = []"

subsection \<open>Examples\<close>

definition exampleQuery :: bioQuery where
  "exampleQuery =
     \<lparr>avatarFile = \<lparr>width = 80, height = 80, src = ''profile-pic.jpg''\<rparr>,
      iconFile = (\<lambda>key. \<lparr>width = 15, height = 15, src = ''icon.png''\<rparr>),
      siteAuthor = \<lparr>name = ''Patryk Andrzejewski'', summary = ''I'' @ [CHR 0x27] @ ''m a software engineer''\<rparr>,
      siteSocial = (\<lambda>key. \<lparr>username = ''andrzejewsky'', link = ''https://github.com/andrzejewsky''\<rparr>)\<rparr>"

definition renderedIn :: "int \<Rightarrow> nat \<Rightarrow> env" where
  "renderedIn y m =
     \<lparr>PATH_PREFIX = '''',
      now = \<lparr>fullYear = y, month = m, day = 1, millisecondOfDay = 0\<rparr>,
      staticQuery = exampleQuery\<rparr>"

section \<open>The posts (content/blog)\<close>

text \<open>
  Every post is a Markdown file that begins with its front matter, the lines between two
  lines \<open>---\<close>, each a key, a colon and a value. A front matter is the list of its keys
  and values in the order of the file, a quoted value without its quotes. There are seven
  posts among the sources: the two named files under \<open>content/blog\<close>, the posts of
  \<open>unnamed/part_000\<close> and \<open>unnamed/part_001\<close>, and the three posts of
  \<open>unnamed/part_002\<close>.
\<close>

type_synonym post = "(string \<times> string) list"

definition netflixSlider :: post where
  "netflixSlider =
     [(''title'', ''How to implement Netflix slider with React and hooks''),
      (''date'', ''2019-03-07T22:40:32.169Z''),
      (''description'', ''Something about Netflix UI written in React and animated by CSS.'')]"

definition ownRedux :: post where
  "ownRedux =
     [(''title'', ''How to create your own Redux''),
      (''date'', ''2018-09-23T22:12:03.284Z''),
      (''description'',
       ''Are you a beginner in the react world? Or you want to go deeper and see how it works? ''
       @ [CHR 0xE2, CHR 0x80, CHR 0x94] @ '' this post is for you! Let''
       @ [CHR 0xE2, CHR 0x80, CHR 0x99] @ ''s try to wire our own redux implementation.'')]"

definition blockchain :: post where
  "blockchain =
     [(''title'', ''Blockchain is a scam. Blockchain is only hype.''),
      (''date'', ''2020-02-03T22:12:03.284Z''),
      (''description'',
       ''What'' @ [CHR 0xE2, CHR 0x80, CHR 0x99]
       @ ''s wrong with the blockchain? Is it a breakthrough or just a scam. Do we need this? or it''
       @ [CHR 0xE2, CHR 0x80, CHR 0x99] @ ''s useless?'')]"

definition unnecessaryProps :: post where
  "unnecessaryProps =
     [(''title'', ''How to get rid of unnecessary props in React.js''),
      (''date'', ''2020-05-16T22:40:32.169Z''),
      (''description'', ''Using useContext and useReducer to cope with managing state'')]"

definition optimisticUI :: post where
  "optimisticUI =
     [(''title'', ''The optimistic UI with React''),
      (''date'', ''2018-11-09T23:46:37.121Z''),
      (''description'',
       ''Going through the Optimistic UI approach in pure React apps and Apollo Graphql'')]"

definition commandPattern :: post where
  "commandPattern =
     [(''title'', ''Using command pattern with vue composition-API''),
      (''date'', ''2020-08-05T23:46:37.121Z'')]"

definition vueReactivity :: post where
  "vueReactivity =
     [(''title'', ''Vue 3 reactivity in depth''),
      (''date'', ''2020-04-28T23:46:37.121Z'')]"

definition posts :: "post list" where
  "posts = [netflixSlider, ownRedux, blockchain, unnecessaryProps, optimisticUI,
            commandPattern, vueReactivity]"

definition hasField :: "string \<Rightarrow> post \<Rightarrow> bool" where
  "hasField k p = (map_of p k \<noteq> None)"

section \<open>Properties of the store\<close>

text \<open>\<open>subscribe\<close> appends to the array and nothing removes from it, so the array
  lists the registered listeners in the order of their subscription.\<close>

lemma subscribe_appends:
  "listeners (subscribe l st) = listeners st @ [l] \<and> state (subscribe l st) = state st"
  by (simp add: subscribe_def)

lemma perform_subscribes_only:
  "list_all is_Subscribe cs \<Longrightarrow>
   perform n rootReducer cs st = Some (st\<lparr>listeners := listeners st @ subscribed cs\<rparr>, [])"
proof (induction cs arbitrary: st)
  case Nil
  then show ?case by simp
next
  case (Cons c cs)
  then show ?case by (cases c) (simp_all add: subscribe_def)
qed

lemma forEach_quiet:
  "list_all (quiet (state st)) ls \<Longrightarrow>
   forEach n rootReducer ls st =
     Some (st\<lparr>listeners := listeners st @ concat (map (\<lambda>l. subscribed (lbody l (state st))) ls)\<rparr>,
           map (\<lambda>l. (lname l, state st)) ls)"
proof (induction ls arbitrary: st)
  case Nil
  then show ?case by simp
next
  case (Cons l ls)
  let ?st1 = "st\<lparr>listeners := listeners st @ subscribed (lbody l (state st))\<rparr>"
  from Cons.prems have ql: "quiet (state st) l"
    and rest: "list_all (quiet (state ?st1)) ls"
    by simp_all
  from ql have q: "list_all is_Subscribe (lbody l (state st))"
    by (simp add: quiet_def)
  have p: "perform n rootReducer (lbody l (state st)) st = Some (?st1, [])"
    using q by (rule perform_subscribes_only)
  show ?case
    using Cons.IH [OF rest] p by simp
qed

text \<open>
  C9. Immediately after \<open>createStore(rootReducer)\<close> returns, \<open>getState()\<close> is
  \<open>rootReducer(undefined, {})\<close>: the store initialises its state by dispatching the empty
  action while no listener is registered, so no listener is invoked.
\<close>

theorem createStore_initial_state:
  "createStore (Suc n) rootReducer =
     Some (\<lparr>state = rootReducer Undefined [], listeners = []\<rparr>, []) \<and>
   session (Suc n) rootReducer [] = Some (rootReducer Undefined [], [])"
  by (simp add: session_def createStore_def getState_def)

text \<open>
  C1 (as amended). Let \<open>st\<close> be any store, in particular one returned by
  \<open>createStore(rootReducer)\<close> in any state it can reach, and let no registered listener
  call \<open>dispatch\<close> when it is invoked with \<open>rootReducer(s, a)\<close>. Then
  \<open>dispatch(a)\<close> sets the state to \<open>rootReducer(s, a)\<close>, invokes the registered
  listeners in the order of the array, which is the order of subscription, once for each
  registration and with the new state as argument, and makes no other invocation; after it
  returns, \<open>getState()\<close> is the new state, and the listeners registered before are still
  registered, in the same order and in front of any that a listener has added.
\<close>

theorem dispatch_notifies_listeners:
  assumes "list_all (quiet (rootReducer (state st) a)) (listeners st)"
  shows "\<exists>st'. dispatch (Suc n) rootReducer a st =
           Some (st', map (\<lambda>l. (lname l, rootReducer (state st) a)) (listeners st))
         \<and> getState st' = rootReducer (state st) a
         \<and> prefix (listeners st) (listeners st')"
proof -
  let ?st1 = "st\<lparr>state := rootReducer (state st) a\<rparr>"
  from assms have "list_all (quiet (state ?st1)) (listeners ?st1)"
    by simp
  from forEach_quiet [OF this, of n rootReducer]
  show ?thesis
    by (simp add: getState_def)
qed

theorem dispatch_notifies_listeners_witness:
  "list_all (quiet (counterReducer (Num 0) increment)) [registrar, logger] \<and>
   (\<exists>st'. dispatch (Suc 0) counterReducer increment \<lparr>state = Num 0, listeners = [registrar, logger]\<rparr> =
           Some (st', [(''registrar'', Num 1), (''logger'', Num 1)])
         \<and> getState st' = Num 1
         \<and> prefix [registrar, logger] (listeners st'))"
proof -
  have q: "list_all (quiet (counterReducer (state \<lparr>state = Num 0, listeners = [registrar, logger]\<rparr>) increment))
             (listeners \<lparr>state = Num 0, listeners = [registrar, logger]\<rparr>)"
    by (simp add: quiet_def registrar_def logger_def)
  have r: "counterReducer (Num 0) increment = Num 1"
    by (simp add: counterReducer_def increment_def)
  have names: "lname registrar = ''registrar''" "lname logger = ''logger''"
    by (simp_all add: registrar_def logger_def)
  show ?thesis
    using q r names dispatch_notifies_listeners
      [where st = "\<lparr>state = Num 0, listeners = [registrar, logger]\<rparr>"
         and rootReducer = counterReducer and a = increment and n = 0]
    by simp
qed

text \<open>
  C1 as stated fails when a listener dispatches. After \<open>createStore(counterReducer)\<close>,
  \<open>subscribe(relay)\<close> and \<open>subscribe(logger)\<close> the state is 0. \<open>dispatch(increment)\<close>
  sets it to 1 and invokes \<open>relay\<close> with 1, which dispatches \<open>increment\<close> again: the
  state becomes 2 and the inner \<open>forEach\<close> invokes both listeners with 2. The outer
  \<open>forEach\<close> then invokes \<open>logger\<close> with the current state, 2. Each listener has been
  invoked twice, \<open>logger\<close> never with \<open>counterReducer(0, increment) = 1\<close>, and
  \<open>getState()\<close> is 2.
\<close>

theorem dispatch_reentrant_counterexample:
  "session 3 counterReducer [Subscribe relay, Subscribe logger] = Some (Num 0, []) \<and>
   counterReducer (Num 0) increment = Num 1 \<and>
   session 3 counterReducer [Subscribe relay, Subscribe logger, Dispatch increment] =
     Some (Num 2, [(''relay'', Num 1), (''relay'', Num 2), (''logger'', Num 2), (''logger'', Num 2)])"
  by (simp add: session_def createStore_def subscribe_def getState_def counterReducer_def
      increment_def relay_def logger_def numeral_3_eq_3)

text \<open>A listener that has been registered twice is called twice by one \<open>dispatch\<close>.\<close>

lemma dispatch_listener_registered_twice:
  "session 3 counterReducer [Subscribe logger, Subscribe logger, Dispatch increment] =
     Some (Num 1, [(''logger'', Num 1), (''logger'', Num 1)])"
  by (simp add: session_def createStore_def subscribe_def getState_def counterReducer_def
      increment_def logger_def numeral_3_eq_3)

section \<open>Properties of combineReducers\<close>






















text \<open>
  C3 fails on the code. \<open>nextState\<close> is created once, when \<open>combineReducers\<close> runs,
  and not in the returned function, so every call returns that one object and overwrites
  it. With \<open>r = combineReducers({ counter: counterReducer, version: 1 })\<close>, the call
  \<open>r(undefined, {})\<close> returns an object \<open>v1\<close> that holds \<open>counter: 0\<close>; the
  call \<open>r(v1, increment)\<close> returns the same reference, and \<open>v1\<close> holds
  \<open>counter: 1\<close> afterwards.
\<close>

theorem combineReducers_shares_nextState:
  "combineReducers exampleReducers emptyHeap = Inr (exampleCombined, exampleHeap) \<and>
   (case exampleCombined Undefined [] exampleHeap of
      Inl e \<Rightarrow> False
    | Inr (v1, h2) \<Rightarrow>
        (case exampleCombined v1 increment h2 of
           Inl e \<Rightarrow> False
         | Inr (v2, h3) \<Rightarrow>
             v2 = v1 \<and>
             deref h2 v1 = [(''counter'', Num 0)] \<and>
             deref h3 v1 = [(''counter'', Num 1)]))"
  by (simp add: exampleCombined_def exampleHeap_def combineReducers_def exampleReducers_def
      emptyHeap_def alloc_def keepFunction_def combination_def getProp_def setProp_def
      counterReducer_def increment_def deref_def plainInherited_def objectPrototypeProps_def
      protoOf_def numeral_2_eq_2)

text \<open>The same holds for every function that \<open>combineReducers\<close> returns, at every call.\<close>

lemma combination_returns_nextState:
  "combination nextState reducerFunctions s action h = Inr (v, h') \<Longrightarrow> v = Ref nextState"
  by (auto simp: combination_def split: sum.splits prod.splits)

text \<open>A key that a plain object inherits is read through the prototype of the state:
  for \<open>combineReducers({ constructor: (s, a) => s })\<close> the first state has
  \<open>constructor: Object\<close>.\<close>

lemma combineReducers_inherited_key:
  "(case combineReducers [(''constructor'', Function (\<lambda>s a. s))] emptyHeap of
      Inl e \<Rightarrow> False
    | Inr (r, h1) \<Rightarrow>
        (case r Undefined [] h1 of
           Inl e \<Rightarrow> False
         | Inr (v, h') \<Rightarrow> deref h' v = [(''constructor'', Native ''Object'')]))"
  by (simp add: combineReducers_def keepFunction_def emptyHeap_def alloc_def combination_def
      deref_def getProp_def setProp_def objectPrototypeProps_def)

section \<open>Properties of the reactivity walkthrough\<close>

lemma ordinaryKey_plainInherited: "ordinaryKey k \<Longrightarrow> plainInherited k = Undefined"
  by (simp add: ordinaryKey_def plainInherited_def objectPrototypeProps_def)


lemma track_None: "currentEffect r = None \<Longrightarrow> track target key r = (r, None)"
  by (simp add: track_def)


lemma dependants_currentEffect [simp]:
  "dependants (r\<lparr>currentEffect := c\<rparr>) target key = dependants r target key"
  by (simp add: dependants_def)

lemma callEffects_dependants:
  "ordinaryKey key \<Longrightarrow>
   callEffects n target key r = forEachDep n (dependants r target key) r"
  by (simp add: dependants_def ordinaryKey_plainInherited split: option.splits)

lemma track_inside:
  assumes "currentEffect r = Some e" and "ordinaryKey k"
  shows "\<exists>r1. track t k r = (r1, None) \<and> currentEffect r1 = Some e \<and>
           (\<forall>target key. dependants r1 target key =
              (if target = t \<and> key = k then dependants r t k @ [e]
               else dependants r target key))"
  using assms
  by (auto simp: track_def dependants_def Let_def ordinaryKey_plainInherited
      split: option.splits)

lemma ordinaryRead_is_Get: "ordinaryRead s \<Longrightarrow> is_Get s"
  by (cases s) simp_all

lemma exec_reads_outside:
  "list_all ordinaryRead ss \<Longrightarrow> currentEffect r = None \<Longrightarrow> exec n ss r = (r, [], None)"
proof (induction ss)
  case Nil
  then show ?case by simp
next
  case (Cons s ss)
  then show ?case by (cases s) (simp_all add: track_None)
qed

lemma exec_reads_inside:
  "list_all ordinaryRead ss \<Longrightarrow> currentEffect r = Some f \<Longrightarrow>
   \<exists>r'. exec n ss r = (r', [], None) \<and> currentEffect r' = Some f \<and>
     (\<forall>target key. dependants r' target key =
        dependants r target key @ replicate (count_list ss (Get target key)) f)"
proof (induction ss arbitrary: r)
  case Nil
  then show ?case by simp
next
  case (Cons s ss)
  from Cons.prems obtain t k where s: "s = Get t k" and k: "ordinaryKey k"
    and rest: "list_all ordinaryRead ss"
    by (cases s) simp_all
  from track_inside [OF Cons.prems(2) k, of t] obtain r1 where
    tr: "track t k r = (r1, None)" and c: "currentEffect r1 = Some f"
    and d1: "\<forall>target key. dependants r1 target key =
              (if target = t \<and> key = k then dependants r t k @ [f]
               else dependants r target key)"
    by blast
  from Cons.IH [OF rest c] obtain r' where
    e: "exec n ss r1 = (r', [], None)" and ce: "currentEffect r' = Some f"
    and d: "\<forall>target key. dependants r' target key =
        dependants r1 target key @ replicate (count_list ss (Get target key)) f"
    by blast
  have "dependants r' target key =
        dependants r target key @ replicate (count_list (s # ss) (Get target key)) f"
    for target key
    using d d1 by (auto simp: s replicate_append_same)
  with e ce tr show ?case by (simp add: s)
qed

text \<open>A call of \<open>effect\<close> with a function that only reads, outside any effect:
  each read is stored with the function, and \<open>currentEffect\<close> is \<open>null\<close>
  afterwards.\<close>

lemma effect_onlyReads:
  assumes "onlyReads f"
  shows "\<exists>r'. effect (Suc n) f r = (r', [], None) \<and> currentEffect r' = None \<and>
     (\<forall>target key. dependants r' target key =
        dependants r target key @ replicate (count_list (fbody f) (Get target key)) f)"
proof -
  from assms have "list_all ordinaryRead (fbody f)"
    by (simp add: onlyReads_def)
  from exec_reads_inside [OF this, of "r\<lparr>currentEffect := Some f\<rparr>" f n] obtain r1 where
    e: "exec n (fbody f) (r\<lparr>currentEffect := Some f\<rparr>) = (r1, [], None)"
    and d: "\<forall>target key. dependants r1 target key =
        dependants r target key @ replicate (count_list (fbody f) (Get target key)) f"
    by auto
  from e have "effect (Suc n) f r = (r1\<lparr>currentEffect := None\<rparr>, [], None)"
    by simp
  with d show ?thesis by simp
qed




text \<open>How a main program of plain statements runs.\<close>

lemma forEachDep_readers:
  "list_all onlyReads es \<Longrightarrow> currentEffect r = None \<Longrightarrow>
   forEachDep (Suc n) es r = (r, es, None)"
proof (induction es)
  case Nil
  then show ?case by simp
next
  case (Cons e es)
  then have "exec n (fbody e) r = (r, [], None)"
    by (simp add: onlyReads_def exec_reads_outside)
  with Cons show ?case by simp
qed

lemma exec_plain:
  "list_all plain program \<Longrightarrow> settled r \<Longrightarrow>
   \<exists>r' t. exec (Suc n) program r = (r', t, None) \<and> settled r' \<and>
     (\<forall>target key. dependants r' target key =
        dependants r target key @ readers program target key)"
proof (induction program arbitrary: r)
  case Nil
  then show ?case by simp
next
  case (Cons s ss)
  from Cons.prems have rest: "list_all plain ss" by simp
  show ?case
  proof (cases s)
    case (Get t k)
    from Cons.prems(2) have "currentEffect r = None"
      by (simp add: settled_def)
    then have "exec (Suc n) (s # ss) r = exec (Suc n) ss r"
      by (simp add: Get track_None)
    with Cons.IH [OF rest Cons.prems(2)] show ?thesis
      by (simp add: Get)
  next
    case (Set t k)
    with Cons.prems(1) have k: "ordinaryKey k" by simp
    from Cons.prems(2) have "currentEffect r = None"
      and "list_all onlyReads (dependants r t k)"
      by (simp_all add: settled_def)
    then have c: "callEffects (Suc n) t k r = (r, dependants r t k, None)"
      by (simp only: callEffects_dependants [OF k]) (simp add: forEachDep_readers)
    from Cons.IH [OF rest Cons.prems(2)] obtain r' t' where
      x: "exec (Suc n) ss r = (r', t', None)" and s': "settled r'"
      and d': "\<forall>target key. dependants r' target key =
          dependants r target key @ readers ss target key"
      by blast
    have "exec (Suc n) (s # ss) r = (r', dependants r t k @ t', None)"
      using c x by (simp only: Set exec.simps) simp
    moreover have "\<forall>target key. dependants r' target key =
        dependants r target key @ readers (s # ss) target key"
      using d' by (simp add: Set)
    ultimately show ?thesis using s' by blast
  next
    case (Effect f)
    with Cons.prems have f: "onlyReads f"
      by simp
    from effect_onlyReads [OF f, of n r] obtain r2 where
      eff: "effect (Suc n) f r = (r2, [], None)" and c2: "currentEffect r2 = None"
      and d: "\<forall>target key. dependants r2 target key =
          dependants r target key @ replicate (count_list (fbody f) (Get target key)) f"
      by blast
    have s2: "settled r2"
      using Cons.prems(2) d f c2 by (auto simp: settled_def list_all_iff)
    from Cons.IH [OF rest s2] obtain r' t where
      x: "exec (Suc n) ss r2 = (r', t, None)" and s': "settled r'"
      and d': "\<forall>target key. dependants r' target key =
          dependants r2 target key @ readers ss target key"
      by blast
    have "exec (Suc n) (s # ss) r = (r', t, None)"
      using eff x by (simp only: Effect exec.simps) simp
    moreover have "\<forall>target key. dependants r' target key =
        dependants r target key @ readers (s # ss) target key"
      using d d' by (simp add: Effect)
    ultimately show ?thesis using s' by blast
  qed
qed

lemma set_replicate_count:
  "set (replicate (count_list xs x) f) = (if x \<in> set xs then {f} else {})"
  by (simp add: count_list_0_iff set_replicate_conv_if)

lemma set_readers:
  "set (readers program target key) =
     {f. Effect f \<in> set program \<and> Get target key \<in> set (fbody f)}"
proof (induction program)
  case Nil
  then show ?case by simp
next
  case (Cons s ss)
  show ?case
  proof (cases s)
    case (Get t k)
    with Cons.IH show ?thesis by simp
  next
    case (Set t k)
    with Cons.IH show ?thesis by simp
  next
    case (Effect g)
    have "set (readers (s # ss) target key) =
        (if Get target key \<in> set (fbody g) then {g} else {}) \<union>
        {f. Effect f \<in> set ss \<and> Get target key \<in> set (fbody f)}"
      using Cons.IH by (simp only: Effect readers.simps set_append set_replicate_count)
    also have "\<dots> = {f. Effect f \<in> set (s # ss) \<and> Get target key \<in> set (fbody f)}"
      by (auto simp: Effect)
    finally show ?thesis .
  qed
qed

text \<open>
  C7 (as amended). Let the functions passed to \<open>effect\<close> only read reactive
  properties, under keys that are not names of properties of \<open>Object.prototype\<close>:
  they neither write a reactive property nor call \<open>effect\<close>. Let the main program
  consist of reads, of writes under such keys and of calls of \<open>effect\<close>, and let
  \<open>key\<close> be such a key. Then the main program runs to its end, and setting the
  property \<open>key\<close> of the reactive object \<open>target\<close> after it invokes the functions that
  were passed to \<open>effect\<close> and that read this property of this object, in the order of
  the calls of \<open>effect\<close>, once for each such read, throws nothing and leaves the
  dependencies as they are. So the set of the functions it triggers is exactly the set of
  those that read the property while they ran inside \<open>effect\<close>: an effect that read
  only other objects, or other keys of this object, is not triggered.
\<close>

theorem set_triggers_readers:
  assumes "list_all plain program" and "ordinaryKey key"
  shows "\<exists>r t. exec (Suc n) program initial = (r, t, None) \<and>
           exec (Suc n) [Set target key] r = (r, readers program target key, None) \<and>
           set (readers program target key) =
             {f. Effect f \<in> set program \<and> Get target key \<in> set (fbody f)}"
proof -
  have i: "settled initial"
    by (simp add: settled_def initial_def dependants_def)
  from exec_plain [OF assms(1) i, of n] obtain r t where
    e: "exec (Suc n) program initial = (r, t, None)" and s: "settled r"
    and d: "\<forall>target key. dependants r target key =
        dependants initial target key @ readers program target key"
    by blast
  from d have "dependants r target key = readers program target key"
    by (simp add: initial_def dependants_def)
  moreover from s have "currentEffect r = None"
    and "list_all onlyReads (dependants r target key)"
    by (simp_all add: settled_def)
  ultimately have "callEffects (Suc n) target key r = (r, readers program target key, None)"
    by (simp only: callEffects_dependants [OF assms(2)]) (simp add: forEachDep_readers)
  then have "exec (Suc n) [Set target key] r = (r, readers program target key, None)"
    by simp
  with e set_readers show ?thesis by blast
qed

theorem set_triggers_readers_witness:
  "list_all plain [Effect fullNameEffect, Effect welcomeEffect, Get 0 ''lastName'', Set 0 ''firstName''] \<and>
   ordinaryKey ''lastName'' \<and>
   (\<exists>r t. exec (Suc 0) [Effect fullNameEffect, Effect welcomeEffect, Get 0 ''lastName'', Set 0 ''firstName'']
              initial = (r, t, None) \<and>
      exec (Suc 0) [Set 0 ''lastName''] r = (r, [fullNameEffect, welcomeEffect], None))"
proof -
  have p: "list_all plain
      [Effect fullNameEffect, Effect welcomeEffect, Get 0 ''lastName'', Set 0 ''firstName'']"
    by (simp add: onlyReads_def fullNameEffect_def welcomeEffect_def ordinaryKey_def)
  have k: "ordinaryKey ''lastName''"
    by (simp add: ordinaryKey_def)
  have r: "readers
      [Effect fullNameEffect, Effect welcomeEffect, Get 0 ''lastName'', Set 0 ''firstName'']
      0 ''lastName'' = [fullNameEffect, welcomeEffect]"
    by (simp add: fullNameEffect_def welcomeEffect_def)
  from set_triggers_readers [OF p k, of 0 0] obtain r' t' where
    e: "exec (Suc 0)
          [Effect fullNameEffect, Effect welcomeEffect, Get 0 ''lastName'', Set 0 ''firstName'']
          initial = (r', t', None)"
    and s: "exec (Suc 0) [Set 0 ''lastName''] r' =
          (r', readers
             [Effect fullNameEffect, Effect welcomeEffect, Get 0 ''lastName'', Set 0 ''firstName'']
             0 ''lastName'', None)"
    by blast
  from s have "exec (Suc 0) [Set 0 ''lastName''] r' = (r', [fullNameEffect, welcomeEffect], None)"
    by (simp only: r)
  with p k e show ?thesis by blast
qed

text \<open>
  C7 as stated fails in three ways, one for each condition on the functions passed to
  \<open>effect\<close>.

  An effect that calls \<open>effect\<close>: in
  \<^verbatim>\<open>effect(() => { effect(() => { welcome = `Mr. ${person.lastName}`; }); person.firstName; })\<close>
  the inner call of \<open>effect\<close> ends with \<open>currentEffect = null\<close>, so the read of
  \<open>firstName\<close> that follows, made by the outer function while it runs inside
  \<open>effect\<close>, is not tracked: setting \<open>firstName\<close> triggers nothing, while setting
  \<open>lastName\<close> triggers the inner function.

  An effect that writes: after
  \<^verbatim>\<open>effect(() => { welcome = `Mr. ${person.lastName}`; }); effect(() => { person.lastName = "Roe"; })\<close>
  the second function is stored for \<open>lastName\<close>, which it never read: its write ran the
  first function, whose read was tracked with the second as \<open>currentEffect\<close>. Setting
  \<open>lastName\<close> then triggers the second function, again and again, until the call stack
  overflows.

  An effect that reads a key of \<open>Object.prototype\<close>: \<open>effect(() => { person.toString; })\<close>
  reads \<open>toString\<close> inside \<open>effect\<close>, but \<open>track\<close> throws and stores
  nothing, and setting \<open>toString\<close> triggers nothing and throws as well. Setting such a
  key throws also after effects that read other keys only.
\<close>

theorem nested_effect_counterexample:
  "(case exec 3 [Effect outer, Set 0 ''firstName''] initial of
      (r, t, out) \<Rightarrow> t = [] \<and> out = None) \<and>
   Get 0 ''firstName'' \<in> set (fbody outer) \<and>
   (case exec 3 [Effect outer, Set 0 ''lastName''] initial of
      (r, t, out) \<Rightarrow> t = [welcomeEffect] \<and> out = None) \<and>
   (case exec 3 [Effect welcomeEffect, Effect rename] initial of
      (r, t, out) \<Rightarrow>
        out = None \<and> dependants r 0 ''lastName'' = [welcomeEffect, rename] \<and>
        (case exec 3 [Set 0 ''lastName''] r of
           (r', t', out') \<Rightarrow> rename \<in> set t' \<and> out' = Some RangeError)) \<and>
   Get 0 ''lastName'' \<notin> set (fbody rename) \<and>
   (case exec 3 [Effect describe] initial of
      (r, t, out) \<Rightarrow>
        out = Some TypeError \<and> dependants r 0 ''toString'' = [] \<and>
        exec 3 [Set 0 ''toString''] r = (r, [], Some TypeError)) \<and>
   Get 0 ''toString'' \<in> set (fbody describe) \<and>
   (case exec 3 [Effect welcomeEffect, Set 0 ''toString''] initial of
      (r, t, out) \<Rightarrow> t = [] \<and> out = Some TypeError)"
  by (simp add: outer_def welcomeEffect_def rename_def describe_def initial_def track_def
      dependants_def numeral_3_eq_3 plainInherited_def objectPrototypeProps_def)
section \<open>Properties of the components\<close>

text \<open>
  C8. For every location and all remaining props, \<open>Heading\<close> returns the main heading,
  the styled \<open>h1\<close>, exactly when \<open>location.pathname\<close> is the root path
  \<open>`${__PATH_PREFIX__}/`\<close>, and the subheading, the styled \<open>h3\<close>, otherwise; in both
  cases the element carries the props other than \<open>location\<close>, unchanged.
\<close>

theorem Heading_by_pathname:
  "Heading e location props children =
     (Element
        (if pathname location = PATH_PREFIX e @ ''/''
         then Styled ''Layout/Heading'' ''MainHeading'' ''h1''
         else Styled ''Layout/Heading'' ''SubHeading'' ''h3'')
        props children,
      [])"
  by (simp add: Heading_def)

lemma elements_child_mem: "x \<in> set (child v) \<Longrightarrow> elements t x = []"
  by (cases v) (auto simp: child_def)

lemma elements_Bio_Seo: "elements (Component ''Seo'') (fst (Bio e)) = []"
  by (simp add: Bio_def useBioData_def split_def Let_def)

lemma elements_Bio_article: "elements (Html ''article'') (fst (Bio e)) = []"
  by (simp add: Bio_def useBioData_def split_def Let_def)

text \<open>
  C6. For every post, the markup of the blog-post template has one \<open>Seo\<close> element.
  Its title is the front-matter title. Its description is the front-matter description
  when that is present and not empty, and the excerpt of the post otherwise; no case
  fails. The article begins with a header that holds the heading of the article, whose
  only child is the text of the front-matter title, and after it the paragraph of the
  date, whose only child is the text of the front-matter date; a field that is \<open>null\<close>
  renders no child.
\<close>

theorem BlogPostTemplate_front_matter:
  "elements (Component ''Seo'') (fst (BlogPostTemplate e data pageContext location)) =
     [Element (Component ''Seo'')
        [(''title'', PNullable (title (frontmatter (markdownRemark data)))),
         (''description'', PNullable
            (case description (frontmatter (markdownRemark data)) of
               None \<Rightarrow> excerpt (markdownRemark data)
             | Some d \<Rightarrow> if d = [] then excerpt (markdownRemark data) else Some d))] []] \<and>
   (\<exists>more. concat (map childrenOf
        (elements (Html ''article'') (fst (BlogPostTemplate e data pageContext location)))) =
      Element (Html ''header'') []
        [Element (Styled ''blog-post'' ''MainHeading'' ''h1'') []
           (case title (frontmatter (markdownRemark data)) of
              None \<Rightarrow> []
            | Some s \<Rightarrow> [Text s]),
         Element (Styled ''blog-post'' ''PostDate'' ''p'') []
           (case date (frontmatter (markdownRemark data)) of
              None \<Rightarrow> []
            | Some s \<Rightarrow> [Text s])] # more)"
proof -
  have c: "child v = (case v of None \<Rightarrow> [] | Some s \<Rightarrow> [Text s])" for v
    by (simp add: child_def)
  show ?thesis
    unfolding c [symmetric]
    by (auto simp: BlogPostTemplate_def Layout_def Heading_def split_def Let_def orElse_def
        elements_Bio_Seo elements_Bio_article elements_child_mem
        split: option.splits)
qed

text \<open>
  C4 (as amended). The markup of \<open>Heading\<close>, \<open>Layout\<close>, \<open>Bio\<close> and the blog-post
  template is a function of the props, the queried data, the path prefix of the site and
  the calendar year of the clock, which \<open>Layout\<close> reads for its footer: two renders of a
  component with identical props, identical queried data and the same path prefix, made in
  the same calendar year, produce identical markup. \<open>Heading\<close> and \<open>Layout\<close> have no
  observable side effect.
\<close>

theorem render_determinism:
  assumes "PATH_PREFIX e1 = PATH_PREFIX e2"
    and "staticQuery e1 = staticQuery e2"
    and "fullYear (now e1) = fullYear (now e2)"
  shows "fst (Heading e1 location props children) = fst (Heading e2 location props children) \<and>
         fst (Layout e1 location t children) = fst (Layout e2 location t children) \<and>
         fst (Bio e1) = fst (Bio e2) \<and>
         fst (BlogPostTemplate e1 data pageContext location) =
           fst (BlogPostTemplate e2 data pageContext location) \<and>
         snd (Heading e1 location props children) = [] \<and>
         snd (Layout e1 location t children) = []"
  using assms
  by (simp add: BlogPostTemplate_def Layout_def Heading_def Bio_def useBioData_def split_def Let_def)

theorem render_determinism_witness:
  "PATH_PREFIX (renderedIn 2020 1) = PATH_PREFIX (renderedIn 2020 12) \<and>
   staticQuery (renderedIn 2020 1) = staticQuery (renderedIn 2020 12) \<and>
   fullYear (now (renderedIn 2020 1)) = fullYear (now (renderedIn 2020 12)) \<and>
   renderedIn 2020 1 \<noteq> renderedIn 2020 12 \<and>
   fst (Layout (renderedIn 2020 1) \<lparr>pathname = ''/''\<rparr> ''Blog'' []) =
     fst (Layout (renderedIn 2020 12) \<lparr>pathname = ''/''\<rparr> ''Blog'' []) \<and>
   fst (Bio (renderedIn 2020 1)) = fst (Bio (renderedIn 2020 12))"
proof -
  have a: "PATH_PREFIX (renderedIn 2020 1) = PATH_PREFIX (renderedIn 2020 12)"
    and b: "staticQuery (renderedIn 2020 1) = staticQuery (renderedIn 2020 12)"
    and c: "fullYear (now (renderedIn 2020 1)) = fullYear (now (renderedIn 2020 12))"
    and d: "renderedIn 2020 1 \<noteq> renderedIn 2020 12"
    by (simp_all add: renderedIn_def)
  from render_determinism [OF a b c, of "\<lparr>pathname = ''/''\<rparr>" "[]" "[]" "''Blog''"] a b c d
  show ?thesis by simp
qed

text \<open>
  C4 as stated fails for \<open>Layout\<close>: its footer shows \<open>new Date().getFullYear()\<close>, so
  two renders with identical props differ when the year has changed between them.
\<close>

theorem Layout_year_counterexample:
  "fst (Layout (renderedIn 2020 1) \<lparr>pathname = ''/''\<rparr> ''Blog'' []) \<noteq>
   fst (Layout (renderedIn 2021 1) \<lparr>pathname = ''/''\<rparr> ''Blog'' [])"
  by (simp add: Layout_def Heading_def renderedIn_def)

text \<open>The path prefix of the site is an input as well: at the location \<open>/\<close>,
  \<open>Heading\<close> is the main heading on a site with no prefix and the subheading on a site
  with the prefix \<open>/blog\<close>.\<close>

lemma Heading_path_prefix:
  "fst (Heading (renderedIn 2020 1) \<lparr>pathname = ''/''\<rparr> [] []) \<noteq>
   fst (Heading ((renderedIn 2020 1)\<lparr>PATH_PREFIX := ''/blog''\<rparr>) \<lparr>pathname = ''/''\<rparr> [] [])"
  by (simp add: Heading_def renderedIn_def)

text \<open>\<open>Bio\<close> writes the queried \<open>social\<close> object to the console at every render.\<close>

lemma Bio_writes_to_console: "snd (Bio e) = [siteSocial (staticQuery e)]"
  by (simp add: Bio_def useBioData_def split_def Let_def)

section \<open>Properties of the posts\<close>

text \<open>
  C5 (as amended). The front matter of every post has the fields \<open>title\<close> and
  \<open>date\<close>. The field \<open>description\<close> is optional: the first five posts have one, the
  post on the command pattern and the post on Vue 3 reactivity have none.
\<close>

theorem posts_required_fields:
  "list_all (hasField ''title'') posts \<and>
   list_all (hasField ''date'') posts \<and>
   map (hasField ''description'') posts = [True, True, True, True, True, False, False]"
  by (simp add: posts_def hasField_def netflixSlider_def ownRedux_def blockchain_def
      unnecessaryProps_def optimisticUI_def commandPattern_def vueReactivity_def)

text \<open>C5 as stated fails: the front matter of the post on the command pattern is a title
  and a date.\<close>

theorem commandPattern_description_counterexample:
  "commandPattern \<in> set posts \<and> \<not> hasField ''description'' commandPattern"
  by (simp add: posts_def hasField_def commandPattern_def)

end
